theory Spec2Isabelle
  imports Complex_Main "HOL-Library.Multiset" "HOL-Library.Log_Nat"
begin

section \<open>Data model of \<open>main.py\<close>\<close>

text \<open>
  The three pydantic models. Python's \<open>int\<close> is unbounded, so every integer field is an
  \<open>int\<close>; \<open>str\<close> is a \<open>string\<close>. \<open>Student\<close> and \<open>Test\<close> both have fields called
  \<open>id\<close> and \<open>name\<close>; \<open>id\<close> is the identity function of HOL and a field name
  shared by two records would have to be qualified at every use, so these fields carry
  the prefix \<open>s_\<close> or \<open>t_\<close>. The functions below receive
  objects that pydantic has already built, so the length constraints on the names are
  checked before any of them runs.
\<close>

record Student =
  s_id :: int
  s_name :: string
  s_email :: string
  tests_taken :: "int list"

record Test =
  t_id :: int
  t_name :: string
  max_score :: int

record TestResult =
  student_id :: int
  test_id :: int
  score :: int

text \<open>
  What a handler can raise: the \<open>HTTPException\<close> of its own \<open>raise\<close> statements, and the
  \<open>OverflowError\<close> that comes out of \<open>statistics.mean\<close> when the mean is too large for a
  float.
\<close>

datatype py_exception = HTTPException (status_code: int) (detail: string) | OverflowError

subsection \<open>Python dictionaries\<close>

text \<open>
  A \<open>dict\<close> keeps its keys in insertion order and \<open>list(d.values())\<close> reads them in that
  order, so a dictionary is an association list. \<open>k in d\<close> is \<open>dict_contains\<close>, \<open>d[k]\<close>
  is \<open>dict_get\<close> (\<open>None\<close> where Python raises \<open>KeyError\<close>), \<open>d[k] = v\<close> is \<open>dict_set\<close>
  (an existing key keeps its place, a new key goes last), \<open>del d[k]\<close> is \<open>dict_del\<close>, and
  \<open>dict_update k f\<close> is the in-place mutation of the object stored under \<open>k\<close>.
\<close>

type_synonym ('k, 'v) dict = "('k \<times> 'v) list"

definition dict_get :: "('k, 'v) dict \<Rightarrow> 'k \<Rightarrow> 'v option" where
  "dict_get d k = map_of d k"

definition dict_contains :: "'k \<Rightarrow> ('k, 'v) dict \<Rightarrow> bool" where
  "dict_contains k d = (dict_get d k \<noteq> None)"

fun dict_set :: "'k \<Rightarrow> 'v \<Rightarrow> ('k, 'v) dict \<Rightarrow> ('k, 'v) dict" where
  "dict_set k v [] = [(k, v)]"
| "dict_set k v (p # ps) = (if fst p = k then (k, v) # ps else p # dict_set k v ps)"

fun dict_update :: "'k \<Rightarrow> ('v \<Rightarrow> 'v) \<Rightarrow> ('k, 'v) dict \<Rightarrow> ('k, 'v) dict" where
  "dict_update k f [] = []"
| "dict_update k f (p # ps) =
     (if fst p = k then (k, f (snd p)) # ps else p # dict_update k f ps)"

definition dict_del :: "'k \<Rightarrow> ('k, 'v) dict \<Rightarrow> ('k, 'v) dict" where
  "dict_del k d = filter (\<lambda>p. fst p \<noteq> k) d"

definition dict_values :: "('k, 'v) dict \<Rightarrow> 'v list" where
  "dict_values d = map snd d"

subsection \<open>The module-level state\<close>

record store =
  students :: "(int, Student) dict"
  tests :: "(int, Test) dict"
  test_results :: "TestResult list"

definition empty_store :: store where
  "empty_store = \<lparr>students = [], tests = [], test_results = []\<rparr>"

text \<open>
  Every endpoint takes the store and gives back its answer (the exception raised, or the
  value returned) together with the store it leaves behind.
\<close>

type_synonym 'a endpoint = "store \<Rightarrow> (py_exception + 'a) \<times> store"

section \<open>Student endpoints\<close>

definition create_student :: "Student \<Rightarrow> Student endpoint" where
  "create_student student s =
     (if dict_contains (s_id student) (students s)
      then (Inl (HTTPException 400 ''Student ID already exists''), s)
      else (Inr student, s\<lparr>students := dict_set (s_id student) student (students s)\<rparr>))"

definition get_student :: "int \<Rightarrow> Student endpoint" where
  "get_student sid s =
     (case dict_get (students s) sid of
        None \<Rightarrow> (Inl (HTTPException 404 ''Student not found''), s)
      | Some st \<Rightarrow> (Inr st, s))"

definition get_all_students :: "(Student list) endpoint" where
  "get_all_students s = (Inr (dict_values (students s)), s)"

definition delete_student :: "int \<Rightarrow> string endpoint" where
  "delete_student sid s =
     (if \<not> dict_contains sid (students s)
      then (Inl (HTTPException 404 ''Student not found''), s)
      else (Inr ''Student deleted successfully'', s\<lparr>students := dict_del sid (students s)\<rparr>))"

section \<open>Test endpoints\<close>

definition create_test :: "Test \<Rightarrow> Test endpoint" where
  "create_test test s =
     (if dict_contains (t_id test) (tests s)
      then (Inl (HTTPException 400 ''Test ID already exists''), s)
      else (Inr test, s\<lparr>tests := dict_set (t_id test) test (tests s)\<rparr>))"

definition get_test :: "int \<Rightarrow> Test endpoint" where
  "get_test tid s =
     (case dict_get (tests s) tid of
        None \<Rightarrow> (Inl (HTTPException 404 ''Test not found''), s)
      | Some t \<Rightarrow> (Inr t, s))"

definition get_all_tests :: "(Test list) endpoint" where
  "get_all_tests s = (Inr (dict_values (tests s)), s)"

section \<open>Result endpoints\<close>

text \<open>
  \<open>submit_test_result\<close>: the three \<open>if ... raise\<close> statements in the order of the source,
  then the two appends. \<open>tests[result.test_id]\<close> is read only after the membership test,
  which is the \<open>Some\<close> branch here. The second append mutates the \<open>tests_taken\<close> list of
  the object stored under \<open>result.student_id\<close>; every request body is parsed into an
  object of its own, so no other student shares that list and \<open>dict_update\<close> on the one
  entry is the whole effect.
\<close>

definition submit_test_result :: "TestResult \<Rightarrow> TestResult endpoint" where
  "submit_test_result result s =
     (if \<not> dict_contains (student_id result) (students s)
      then (Inl (HTTPException 404 ''Student not found''), s)
      else case dict_get (tests s) (test_id result) of
        None \<Rightarrow> (Inl (HTTPException 404 ''Test not found''), s)
      | Some t \<Rightarrow>
          if score result > max_score t
          then (Inl (HTTPException 400 ''Score exceeds maximum possible score''), s)
          else (Inr result,
                s\<lparr>test_results := test_results s @ [result],
                  students := dict_update (student_id result)
                    (\<lambda>st. st\<lparr>tests_taken := tests_taken st @ [test_id result]\<rparr>)
                    (students s)\<rparr>))"

definition get_student_results :: "int \<Rightarrow> (TestResult list) endpoint" where
  "get_student_results sid s =
     (if \<not> dict_contains sid (students s)
      then (Inl (HTTPException 404 ''Student not found''), s)
      else (Inr (filter (\<lambda>result. student_id result = sid) (test_results s)), s))"

definition get_test_results :: "int \<Rightarrow> (TestResult list) endpoint" where
  "get_test_results tid s =
     (if \<not> dict_contains tid (tests s)
      then (Inl (HTTPException 404 ''Test not found''), s)
      else (Inr (filter (\<lambda>result. test_id result = tid) (test_results s)), s))"

section \<open>Aggregates\<close>

subsection \<open>Numbers that \<open>statistics.mean\<close> returns\<close>

text \<open>
  On a list of \<open>int\<close> the function \<open>statistics.mean\<close> adds the data up exactly, divides
  by their number as a \<open>Fraction\<close>, and converts the quotient: to an \<open>int\<close> when its
  denominator is 1, and with \<open>float\<close> otherwise, which for a \<open>Fraction\<close> is the true
  division \<open>numerator / denominator\<close> of two integers. A \<open>float\<close> is an IEEE double; it is
  represented here by the rational number it stands for.

  True division of integers is correctly rounded. For a quotient of magnitude \<open>q\<close> with
  \<open>2^e \<le> q < 2^(e+1)\<close> the doubles around \<open>q\<close> are the multiples of \<open>2^p\<close>, where
  \<open>p = e - 52\<close> (53 significant bits), and \<open>p = -1074\<close> in the subnormal range. The
  result is the multiple nearest to \<open>q\<close>, the even one of the two at a tie, and Python
  raises \<open>OverflowError\<close> when that multiple is \<open>2^1024\<close> or more. \<open>float_exponent a b\<close>
  is the \<open>e\<close> of \<open>a / b\<close> for positive \<open>a\<close> and \<open>b\<close>: the difference of the bit lengths,
  or one less. The divisor is positive wherever \<open>int_true_divide\<close> is called here.
\<close>

datatype py_number = PyInt int | PyFloat rat

fun py_value :: "py_number \<Rightarrow> rat" where
  "py_value (PyInt i) = of_int i"
| "py_value (PyFloat f) = f"

definition round_half_even :: "rat \<Rightarrow> int" where
  "round_half_even x =
     (let f = \<lfloor>x\<rfloor>; d = x - of_int f
      in if d < 1 / 2 then f else if 1 / 2 < d then f + 1 else if even f then f else f + 1)"

definition float_exponent :: "int \<Rightarrow> int \<Rightarrow> int" where
  "float_exponent a b =
     (let k = bitlen a - bitlen b
      in if (2 :: rat) powi k * of_int b \<le> of_int a then k else k - 1)"

definition int_true_divide :: "int \<Rightarrow> int \<Rightarrow> py_exception + rat" where
  "int_true_divide a b =
     (if a = 0 then Inr 0
      else let p = max (float_exponent \<bar>a\<bar> b - 52) (- 1074);
               m = round_half_even (of_int \<bar>a\<bar> / (of_int b * 2 powi p));
               v = of_int m * 2 powi p
           in if 2 powi 1024 \<le> v then Inl OverflowError else Inr (of_int (sgn a) * v))"

text \<open>
  \<open>mean\<close> is \<open>statistics.mean\<close> on a non-empty list of integers (on an empty one it
  raises \<open>StatisticsError\<close>; the handler returns before calling it then). \<open>py_max\<close> and
  \<open>py_min\<close> are the builtins \<open>max\<close> and \<open>min\<close> on a non-empty iterable: the first
  element, then one comparison for each later element.
\<close>

definition mean :: "int list \<Rightarrow> py_exception + py_number" where
  "mean xs =
     (let total = sum_list xs; n = int (length xs)
      in if total mod n = 0 then Inr (PyInt (total div n))
         else case int_true_divide total n of
           Inl e \<Rightarrow> Inl e
         | Inr f \<Rightarrow> Inr (PyFloat f))"

definition py_max :: "int \<Rightarrow> int list \<Rightarrow> int" where
  "py_max x xs = fold (\<lambda>y m. if y > m then y else m) xs x"

definition py_min :: "int \<Rightarrow> int list \<Rightarrow> int" where
  "py_min x xs = fold (\<lambda>y m. if y < m then y else m) xs x"

subsection \<open>The three endpoints\<close>

text \<open>
  Each handler builds \<open>test_scores\<close> with the same list comprehension over
  \<open>test_results\<close>, raises when the list is empty, and returns what the library function
  returns; an exception of \<open>statistics.mean\<close> leaves the handler as it is.
\<close>

definition get_test_average :: "int \<Rightarrow> py_number endpoint" where
  "get_test_average tid s =
     (if \<not> dict_contains tid (tests s)
      then (Inl (HTTPException 404 ''Test not found''), s)
      else case map score (filter (\<lambda>result. test_id result = tid) (test_results s)) of
        [] \<Rightarrow> (Inl (HTTPException 404 ''No results found for this test''), s)
      | x # xs \<Rightarrow> (mean (x # xs), s))"

definition get_test_highest :: "int \<Rightarrow> int endpoint" where
  "get_test_highest tid s =
     (if \<not> dict_contains tid (tests s)
      then (Inl (HTTPException 404 ''Test not found''), s)
      else case map score (filter (\<lambda>result. test_id result = tid) (test_results s)) of
        [] \<Rightarrow> (Inl (HTTPException 404 ''No results found for this test''), s)
      | x # xs \<Rightarrow> (Inr (py_max x xs), s))"

definition get_test_lowest :: "int \<Rightarrow> int endpoint" where
  "get_test_lowest tid s =
     (if \<not> dict_contains tid (tests s)
      then (Inl (HTTPException 404 ''Test not found''), s)
      else case map score (filter (\<lambda>result. test_id result = tid) (test_results s)) of
        [] \<Rightarrow> (Inl (HTTPException 404 ''No results found for this test''), s)
      | x # xs \<Rightarrow> (Inr (py_min x xs), s))"

section \<open>Requests and reachable stores\<close>

text \<open>
  One constructor for each route of the application. \<open>handle\<close> is the store a request
  leaves behind, and \<open>run\<close> serves a sequence of requests one after the other, starting
  from the empty dictionaries and the empty list the module defines when it is loaded.
\<close>

datatype request =
    CreateStudent Student
  | GetStudent int
  | GetAllStudents
  | DeleteStudent int
  | CreateTest Test
  | GetTest int
  | GetAllTests
  | SubmitTestResult TestResult
  | GetStudentResults int
  | GetTestResults int
  | GetTestAverage int
  | GetTestHighest int
  | GetTestLowest int

fun handle :: "request \<Rightarrow> store \<Rightarrow> store" where
  "handle (CreateStudent student) s = snd (create_student student s)"
| "handle (GetStudent sid) s = snd (get_student sid s)"
| "handle GetAllStudents s = snd (get_all_students s)"
| "handle (DeleteStudent sid) s = snd (delete_student sid s)"
| "handle (CreateTest test) s = snd (create_test test s)"
| "handle (GetTest tid) s = snd (get_test tid s)"
| "handle GetAllTests s = snd (get_all_tests s)"
| "handle (SubmitTestResult result) s = snd (submit_test_result result s)"
| "handle (GetStudentResults sid) s = snd (get_student_results sid s)"
| "handle (GetTestResults tid) s = snd (get_test_results tid s)"
| "handle (GetTestAverage tid) s = snd (get_test_average tid s)"
| "handle (GetTestHighest tid) s = snd (get_test_highest tid s)"
| "handle (GetTestLowest tid) s = snd (get_test_lowest tid s)"

definition run :: "request list \<Rightarrow> store" where
  "run reqs = fold handle reqs empty_store"

subsection \<open>Creation order\<close>

text \<open>
  The order of the listings as the claim about them words it, computed from the requests
  alone and without the dictionaries: a student's identifier joins the end of the
  sequence when a student is created under an identifier that is not in it, and leaves
  the sequence when that student is deleted; a test's identifier joins the end when a
  test is created under an identifier that is not in the sequence, and never leaves.
\<close>

fun surviving_students_step :: "request \<Rightarrow> int list \<Rightarrow> int list" where
  "surviving_students_step (CreateStudent student) ids =
     (if s_id student \<in> set ids then ids else ids @ [s_id student])"
| "surviving_students_step (DeleteStudent sid) ids = removeAll sid ids"
| "surviving_students_step _ ids = ids"

definition surviving_student_ids :: "request list \<Rightarrow> int list" where
  "surviving_student_ids reqs = fold surviving_students_step reqs []"

fun created_tests_step :: "request \<Rightarrow> int list \<Rightarrow> int list" where
  "created_tests_step (CreateTest test) ids =
     (if t_id test \<in> set ids then ids else ids @ [t_id test])"
| "created_tests_step _ ids = ids"

definition created_test_ids :: "request list \<Rightarrow> int list" where
  "created_test_ids reqs = fold created_tests_step reqs []"

subsection \<open>Concrete scenarios\<close>

text \<open>
  The student and the test of the scenario in the specification's list of testable
  properties, a second student whose creation request carries a \<open>tests_taken\<close> field, a
  second and a third test, a test whose \<open>max_score\<close> is beyond the range of a float, and
  the stores and request sequences the examples below run on.
\<close>

definition ann_lee :: Student where
  "ann_lee = \<lparr>s_id = 1, s_name = ''Ann Lee'', s_email = ''a@x.com'', tests_taken = []\<rparr>"

definition transfer_student :: Student where
  "transfer_student =
     \<lparr>s_id = 2, s_name = ''Bo Chen'', s_email = ''b@x.com'', tests_taken = [7]\<rparr>"

definition quiz :: Test where
  "quiz = \<lparr>t_id = 1, t_name = ''Quiz'', max_score = 20\<rparr>"

definition final_exam :: Test where
  "final_exam = \<lparr>t_id = 2, t_name = ''Final'', max_score = 100\<rparr>"

definition scenario_store :: store where
  "scenario_store = run [CreateStudent ann_lee, CreateTest quiz]"

definition graded_requests :: "request list" where
  "graded_requests =
     [CreateStudent ann_lee, CreateTest quiz,
      SubmitTestResult \<lparr>student_id = 1, test_id = 1, score = 10\<rparr>,
      SubmitTestResult \<lparr>student_id = 1, test_id = 1, score = 5\<rparr>,
      SubmitTestResult \<lparr>student_id = 1, test_id = 1, score = 15\<rparr>]"

definition graded_store :: store where
  "graded_store = run graded_requests"







definition reshuffle_requests :: "request list" where
  "reshuffle_requests =
     [CreateStudent ann_lee, CreateStudent transfer_student, CreateTest quiz,
      DeleteStudent 1, CreateTest final_exam, CreateStudent ann_lee]"

section \<open>Facts about dictionaries and the builtins\<close>

lemma dict_get_set: "dict_get (dict_set k v d) k' = (if k' = k then Some v else dict_get d k')"
  by (induction d) (auto simp: dict_get_def)

lemma dict_get_update:
  "dict_get (dict_update k f d) k' =
     (if k' = k then map_option f (dict_get d k) else dict_get d k')"
  by (induction d) (auto simp: dict_get_def)

lemma dict_get_del: "dict_get (dict_del k d) k' = (if k' = k then None else dict_get d k')"
  by (induction d) (auto simp: dict_get_def dict_del_def)

lemma dict_set_new: "\<not> dict_contains k d \<Longrightarrow> dict_set k v d = d @ [(k, v)]"
  by (induction d) (auto simp: dict_contains_def dict_get_def)

lemma keys_dict_update: "map fst (dict_update k f d) = map fst d"
  by (induction d) auto

lemma dict_contains_keys: "dict_contains k d \<longleftrightarrow> k \<in> set (map fst d)"
  by (induction d) (auto simp: dict_contains_def dict_get_def)



lemmas endpoint_defs =
  create_student_def get_student_def get_all_students_def delete_student_def
  create_test_def get_test_def get_all_tests_def submit_test_result_def
  get_student_results_def get_test_results_def get_test_average_def get_test_highest_def
  get_test_lowest_def

lemma keys_dict_del: "map fst (dict_del k d) = removeAll k (map fst d)"
  by (induction d) (auto simp: dict_del_def)

lemma set_dict_update:
  "p \<in> set (dict_update k f d) \<Longrightarrow> p \<in> set d \<or> (\<exists>v. (k, v) \<in> set d \<and> p = (k, f v))"
  by (induction d) (auto split: if_splits)

lemma dict_get_in_values: "dict_get d k = Some v \<Longrightarrow> v \<in> set (dict_values d)"
  by (auto simp: dict_get_def dict_values_def dest!: map_of_SomeD intro: rev_image_eqI)

section \<open>The concrete stores, evaluated\<close>

lemma scenario_store_eq:
  "scenario_store = \<lparr>students = [(1, ann_lee)], tests = [(1, quiz)], test_results = []\<rparr>"
  by (simp add: scenario_store_def run_def empty_store_def create_student_def create_test_def
      dict_contains_def dict_get_def ann_lee_def quiz_def)

lemma graded_store_eq:
  "graded_store =
     \<lparr>students = [(1, ann_lee\<lparr>tests_taken := [1, 1, 1]\<rparr>)], tests = [(1, quiz)],
      test_results =
        [\<lparr>student_id = 1, test_id = 1, score = 10\<rparr>,
         \<lparr>student_id = 1, test_id = 1, score = 5\<rparr>,
         \<lparr>student_id = 1, test_id = 1, score = 15\<rparr>]\<rparr>"
  by (simp add: graded_store_def graded_requests_def run_def empty_store_def create_student_def
      create_test_def submit_test_result_def dict_contains_def dict_get_def ann_lee_def quiz_def)

section \<open>Result submission\<close>

text \<open>
  Claim C1. A result submission runs three checks in a fixed order. An unknown
  \<open>student_id\<close> is reported as 404 "Student not found" whatever the test and the score
  are; with a known student, an unknown \<open>test_id\<close> is reported as 404 "Test not found"
  whatever the score is; with both known, a score above the test's \<open>max_score\<close> is
  reported as 400 "Score exceeds maximum possible score"; and a submission that passes
  the three checks is not rejected.
\<close>

theorem submit_test_result_check_order:
  "(\<not> dict_contains (student_id r) (students s) \<longrightarrow>
      fst (submit_test_result r s) = Inl (HTTPException 404 ''Student not found'')) \<and>
   (dict_contains (student_id r) (students s) \<and> \<not> dict_contains (test_id r) (tests s) \<longrightarrow>
      fst (submit_test_result r s) = Inl (HTTPException 404 ''Test not found'')) \<and>
   (dict_contains (student_id r) (students s) \<and> dict_get (tests s) (test_id r) = Some t \<and>
    score r > max_score t \<longrightarrow>
      fst (submit_test_result r s) =
        Inl (HTTPException 400 ''Score exceeds maximum possible score'')) \<and>
   (dict_contains (student_id r) (students s) \<and> dict_get (tests s) (test_id r) = Some t \<and>
    score r \<le> max_score t \<longrightarrow>
      fst (submit_test_result r s) = Inr r)"
  by (auto simp: submit_test_result_def dict_contains_def split: option.splits)

theorem submit_test_result_check_order_witness:
  "(\<not> dict_contains 2 (students scenario_store) \<and>
    fst (submit_test_result \<lparr>student_id = 2, test_id = 9, score = 99\<rparr> scenario_store) =
      Inl (HTTPException 404 ''Student not found'')) \<and>
   (dict_contains 1 (students scenario_store) \<and> \<not> dict_contains 9 (tests scenario_store) \<and>
    fst (submit_test_result \<lparr>student_id = 1, test_id = 9, score = 99\<rparr> scenario_store) =
      Inl (HTTPException 404 ''Test not found'')) \<and>
   (dict_get (tests scenario_store) 1 = Some quiz \<and> 25 > max_score quiz \<and>
    fst (submit_test_result \<lparr>student_id = 1, test_id = 1, score = 25\<rparr> scenario_store) =
      Inl (HTTPException 400 ''Score exceeds maximum possible score'')) \<and>
   (18 \<le> max_score quiz \<and>
    fst (submit_test_result \<lparr>student_id = 1, test_id = 1, score = 18\<rparr> scenario_store) =
      Inr \<lparr>student_id = 1, test_id = 1, score = 18\<rparr>)"
proof -
  have no2: "\<not> dict_contains 2 (students scenario_store)"
    and has1: "dict_contains 1 (students scenario_store)"
    and no9: "\<not> dict_contains 9 (tests scenario_store)"
    and t1: "dict_get (tests scenario_store) 1 = Some quiz"
    by (simp_all add: scenario_store_eq dict_contains_def dict_get_def)
  have m: "max_score quiz = 20"
    by (simp add: quiz_def)
  show ?thesis
    using no2 has1 no9 t1 m
      submit_test_result_check_order
        [of "\<lparr>student_id = 2, test_id = 9, score = 99\<rparr>" scenario_store quiz]
      submit_test_result_check_order
        [of "\<lparr>student_id = 1, test_id = 9, score = 99\<rparr>" scenario_store quiz]
      submit_test_result_check_order
        [of "\<lparr>student_id = 1, test_id = 1, score = 25\<rparr>" scenario_store quiz]
      submit_test_result_check_order
        [of "\<lparr>student_id = 1, test_id = 1, score = 18\<rparr>" scenario_store quiz]
    by simp
qed

text \<open>
  Claim C2. When the student and the test of a result are in the store and the score
  is at most the test's \<open>max_score\<close>, the submission returns the result, appends it to
  \<open>test_results\<close> and appends its \<open>test_id\<close> to the \<open>tests_taken\<close> of that student,
  leaving the keys of \<open>students\<close> and the whole of \<open>tests\<close> as they were. Afterwards
  \<open>get_student\<close> and \<open>get_all_students\<close> show the longer \<open>tests_taken\<close>, and
  \<open>get_student_results\<close> and \<open>get_test_results\<close> end with the new result.
\<close>

theorem submit_test_result_success:
  assumes "dict_get (students s) (student_id r) = Some st"
    and "dict_get (tests s) (test_id r) = Some t"
    and "score r \<le> max_score t"
  shows "fst (submit_test_result r s) = Inr r \<and>
    test_results (snd (submit_test_result r s)) = test_results s @ [r] \<and>
    tests (snd (submit_test_result r s)) = tests s \<and>
    map fst (students (snd (submit_test_result r s))) = map fst (students s) \<and>
    fst (get_student (student_id r) (snd (submit_test_result r s))) =
      Inr (st\<lparr>tests_taken := tests_taken st @ [test_id r]\<rparr>) \<and>
    (\<exists>sts. fst (get_all_students (snd (submit_test_result r s))) = Inr sts \<and>
       st\<lparr>tests_taken := tests_taken st @ [test_id r]\<rparr> \<in> set sts) \<and>
    fst (get_student_results (student_id r) (snd (submit_test_result r s))) =
      Inr (filter (\<lambda>x. student_id x = student_id r) (test_results s) @ [r]) \<and>
    fst (get_test_results (test_id r) (snd (submit_test_result r s))) =
      Inr (filter (\<lambda>x. test_id x = test_id r) (test_results s) @ [r])"
proof -
  let ?s' = "snd (submit_test_result r s)"
  let ?st' = "st\<lparr>tests_taken := tests_taken st @ [test_id r]\<rparr>"
  have c: "dict_contains (student_id r) (students s)" "dict_contains (test_id r) (tests s)"
    using assms by (simp_all add: dict_contains_def)
  have s': "?s' = s\<lparr>test_results := test_results s @ [r],
      students := dict_update (student_id r)
        (\<lambda>st. st\<lparr>tests_taken := tests_taken st @ [test_id r]\<rparr>) (students s)\<rparr>"
    and ok: "fst (submit_test_result r s) = Inr r"
    using assms c by (simp_all add: submit_test_result_def)
  have g: "dict_get (students ?s') (student_id r) = Some ?st'"
    using assms(1) by (simp add: s' dict_get_update)
  have k: "map fst (students ?s') = map fst (students s)"
    by (simp add: s' keys_dict_update)
  have c': "dict_contains (student_id r) (students ?s')"
    using g by (simp add: dict_contains_def)
  have "fst (get_student (student_id r) ?s') = Inr ?st'"
    by (simp add: get_student_def g)
  moreover have "\<exists>sts. fst (get_all_students ?s') = Inr sts \<and> ?st' \<in> set sts"
    using dict_get_in_values [OF g] by (simp add: get_all_students_def)
  moreover have "fst (get_student_results (student_id r) ?s') =
      Inr (filter (\<lambda>x. student_id x = student_id r) (test_results s) @ [r])"
    using c' by (simp add: get_student_results_def) (simp add: s')
  moreover have "fst (get_test_results (test_id r) ?s') =
      Inr (filter (\<lambda>x. test_id x = test_id r) (test_results s) @ [r])"
    using c(2) by (simp add: get_test_results_def s')
  moreover have "test_results ?s' = test_results s @ [r]" "tests ?s' = tests s"
    by (simp_all add: s')
  ultimately show ?thesis
    using ok k by simp
qed

theorem submit_test_result_success_witness:
  "dict_get (students graded_store) 1 = Some (ann_lee\<lparr>tests_taken := [1, 1, 1]\<rparr>) \<and>
   dict_get (tests graded_store) 1 = Some quiz \<and> 18 \<le> max_score quiz \<and>
   fst (submit_test_result \<lparr>student_id = 1, test_id = 1, score = 18\<rparr> graded_store) =
     Inr \<lparr>student_id = 1, test_id = 1, score = 18\<rparr> \<and>
   test_results (snd (submit_test_result \<lparr>student_id = 1, test_id = 1, score = 18\<rparr>
       graded_store)) =
     test_results graded_store @ [\<lparr>student_id = 1, test_id = 1, score = 18\<rparr>] \<and>
   fst (get_student 1 (snd (submit_test_result \<lparr>student_id = 1, test_id = 1, score = 18\<rparr>
       graded_store))) =
     Inr (ann_lee\<lparr>tests_taken := [1, 1, 1, 1]\<rparr>)"
proof -
  have h: "dict_get (students graded_store) 1 = Some (ann_lee\<lparr>tests_taken := [1, 1, 1]\<rparr>)"
    "dict_get (tests graded_store) 1 = Some quiz"
    by (simp_all add: graded_store_eq dict_get_def)
  have m: "18 \<le> max_score quiz"
    by (simp add: quiz_def)
  show ?thesis
    using h m
      submit_test_result_success
        [of graded_store "\<lparr>student_id = 1, test_id = 1, score = 18\<rparr>"
          "ann_lee\<lparr>tests_taken := [1, 1, 1]\<rparr>" quiz]
    by simp
qed

text \<open>
  Claim C3. A result submission is rejected exactly when the student is unknown, the
  test is unknown, or the score is above the test's \<open>max_score\<close>, and a rejected
  submission leaves the store as it was: \<open>students\<close> with every \<open>tests_taken\<close>, \<open>tests\<close>
  and \<open>test_results\<close>.
\<close>

theorem submit_test_result_failure_no_effect:
  "((\<exists>e. fst (submit_test_result r s) = Inl e) \<longleftrightarrow>
      \<not> dict_contains (student_id r) (students s) \<or>
      \<not> dict_contains (test_id r) (tests s) \<or>
      (\<exists>t. dict_get (tests s) (test_id r) = Some t \<and> score r > max_score t)) \<and>
   ((\<exists>e. fst (submit_test_result r s) = Inl e) \<longrightarrow> snd (submit_test_result r s) = s)"
  by (auto simp: submit_test_result_def dict_contains_def split: option.splits)

theorem submit_test_result_failure_no_effect_witness:
  "(\<not> dict_contains 2 (students graded_store) \<and>
    snd (submit_test_result \<lparr>student_id = 2, test_id = 1, score = 3\<rparr> graded_store) =
      graded_store) \<and>
   (\<not> dict_contains 9 (tests graded_store) \<and>
    snd (submit_test_result \<lparr>student_id = 1, test_id = 9, score = 3\<rparr> graded_store) =
      graded_store) \<and>
   (dict_get (tests graded_store) 1 = Some quiz \<and> 25 > max_score quiz \<and>
    snd (submit_test_result \<lparr>student_id = 1, test_id = 1, score = 25\<rparr> graded_store) =
      graded_store) \<and>
   test_results graded_store \<noteq> []"
proof -
  have h: "\<not> dict_contains 2 (students graded_store)" "\<not> dict_contains 9 (tests graded_store)"
    "dict_get (tests graded_store) 1 = Some quiz" "test_results graded_store \<noteq> []"
    by (simp_all add: graded_store_eq dict_contains_def dict_get_def)
  have m: "25 > max_score quiz"
    by (simp add: quiz_def)
  have "\<exists>t. dict_get (tests graded_store) (test_id \<lparr>student_id = 1, test_id = 1, score = 25\<rparr>) = Some t \<and>
      score \<lparr>student_id = 1, test_id = 1, score = 25\<rparr> > max_score t"
    using h(3) m by simp
  then show ?thesis
    using h m
      submit_test_result_failure_no_effect
        [of "\<lparr>student_id = 2, test_id = 1, score = 3\<rparr>" graded_store]
      submit_test_result_failure_no_effect
        [of "\<lparr>student_id = 1, test_id = 9, score = 3\<rparr>" graded_store]
      submit_test_result_failure_no_effect
        [of "\<lparr>student_id = 1, test_id = 1, score = 25\<rparr>" graded_store]
    by simp
qed

section \<open>Aggregates over the scores of a test\<close>

subsection \<open>Correct rounding of true division\<close>














subsection \<open>The stores of the examples\<close>




subsection \<open>The aggregate endpoints\<close>




section \<open>Creating, reading and deleting\<close>

text \<open>
  Claim C6. Creating a student whose identifier is not in \<open>students\<close> returns the
  student, and \<open>get_student\<close> with that identifier then returns the same record, field
  for field; likewise \<open>create_test\<close> and \<open>get_test\<close> for a test whose identifier is not
  in \<open>tests\<close>.
\<close>

theorem create_then_get:
  "(\<not> dict_contains (s_id student) (students s) \<longrightarrow>
      fst (create_student student s) = Inr student \<and>
      fst (get_student (s_id student) (snd (create_student student s))) = Inr student) \<and>
   (\<not> dict_contains (t_id test) (tests s) \<longrightarrow>
      fst (create_test test s) = Inr test \<and>
      fst (get_test (t_id test) (snd (create_test test s))) = Inr test)"
  by (simp add: create_student_def create_test_def get_student_def get_test_def dict_get_set)

theorem create_then_get_witness:
  "\<not> dict_contains (s_id transfer_student) (students graded_store) \<and>
   fst (create_student transfer_student graded_store) = Inr transfer_student \<and>
   fst (get_student 2 (snd (create_student transfer_student graded_store))) =
     Inr transfer_student \<and>
   \<not> dict_contains (t_id final_exam) (tests graded_store) \<and>
   fst (create_test final_exam graded_store) = Inr final_exam \<and>
   fst (get_test 2 (snd (create_test final_exam graded_store))) = Inr final_exam"
proof -
  have i: "s_id transfer_student = 2" "t_id final_exam = 2"
    by (simp_all add: transfer_student_def final_exam_def)
  have h: "\<not> dict_contains (s_id transfer_student) (students graded_store)"
    "\<not> dict_contains (t_id final_exam) (tests graded_store)"
    by (simp_all add: i graded_store_eq dict_contains_def dict_get_def)
  show ?thesis
    using h create_then_get [of transfer_student graded_store final_exam] by (simp add: i)
qed

text \<open>
  Claim C7. Deleting an identifier that is not in \<open>students\<close> raises 404 "Student not
  found" and changes nothing. Deleting one that is there succeeds; afterwards
  \<open>get_student\<close> with it raises 404, \<open>get_all_students\<close> lists the other entries in
  their old order, every other student is read as before, and \<open>test_results\<close> and
  \<open>tests\<close> are what they were: the results of the deleted student stay.
\<close>

theorem delete_student_spec:
  "(\<not> dict_contains sid (students s) \<longrightarrow>
      delete_student sid s = (Inl (HTTPException 404 ''Student not found''), s)) \<and>
   (dict_contains sid (students s) \<longrightarrow>
      fst (delete_student sid s) = Inr ''Student deleted successfully'' \<and>
      fst (get_student sid (snd (delete_student sid s))) =
        Inl (HTTPException 404 ''Student not found'') \<and>
      fst (get_all_students (snd (delete_student sid s))) =
        Inr (map snd (filter (\<lambda>p. fst p \<noteq> sid) (students s))) \<and>
      (\<forall>k. k \<noteq> sid \<longrightarrow>
         fst (get_student k (snd (delete_student sid s))) = fst (get_student k s)) \<and>
      test_results (snd (delete_student sid s)) = test_results s \<and>
      tests (snd (delete_student sid s)) = tests s)"
proof -
  have "delete_student sid s = (Inl (HTTPException 404 ''Student not found''), s)"
    if "\<not> dict_contains sid (students s)"
    using that by (simp add: delete_student_def)
  moreover have "fst (delete_student sid s) = Inr ''Student deleted successfully'' \<and>
      fst (get_student sid (snd (delete_student sid s))) =
        Inl (HTTPException 404 ''Student not found'') \<and>
      fst (get_all_students (snd (delete_student sid s))) =
        Inr (map snd (filter (\<lambda>p. fst p \<noteq> sid) (students s))) \<and>
      (\<forall>k. k \<noteq> sid \<longrightarrow>
         fst (get_student k (snd (delete_student sid s))) = fst (get_student k s)) \<and>
      test_results (snd (delete_student sid s)) = test_results s \<and>
      tests (snd (delete_student sid s)) = tests s"
    if c: "dict_contains sid (students s)"
  proof -
    have d: "delete_student sid s =
        (Inr ''Student deleted successfully'', s\<lparr>students := dict_del sid (students s)\<rparr>)"
      using c by (simp add: delete_student_def)
    have "fst (get_all_students (snd (delete_student sid s))) =
        Inr (map snd (filter (\<lambda>p. fst p \<noteq> sid) (students s)))"
      by (simp add: d get_all_students_def dict_values_def dict_del_def)
    moreover have "fst (get_student k (snd (delete_student sid s))) = fst (get_student k s)"
      if "k \<noteq> sid" for k
      using that by (simp add: d get_student_def dict_get_del split: option.splits)
    moreover have "fst (get_student sid (snd (delete_student sid s))) =
        Inl (HTTPException 404 ''Student not found'')"
      by (simp add: d get_student_def dict_get_del)
    ultimately show ?thesis
      by (simp add: d)
  qed
  ultimately show ?thesis
    by blast
qed

theorem delete_student_spec_witness:
  "(\<not> dict_contains 2 (students graded_store) \<and>
    delete_student 2 graded_store =
      (Inl (HTTPException 404 ''Student not found''), graded_store)) \<and>
   (dict_contains 1 (students graded_store) \<and>
    fst (delete_student 1 graded_store) = Inr ''Student deleted successfully'' \<and>
    fst (get_student 1 (snd (delete_student 1 graded_store))) =
      Inl (HTTPException 404 ''Student not found'') \<and>
    fst (get_all_students (snd (delete_student 1 graded_store))) = Inr [] \<and>
    test_results (snd (delete_student 1 graded_store)) = test_results graded_store \<and>
    length (test_results graded_store) = 3)"
proof -
  have h: "\<not> dict_contains 2 (students graded_store)" "dict_contains 1 (students graded_store)"
    "map snd (filter (\<lambda>p. fst p \<noteq> 1) (students graded_store)) = []"
    "length (test_results graded_store) = 3"
    by (simp_all add: graded_store_eq dict_contains_def dict_get_def)
  show ?thesis
    using h delete_student_spec [of 2 graded_store] delete_student_spec [of 1 graded_store]
    by simp
qed

text \<open>
  Claim C8. \<open>get_student_results\<close> raises 404 "Student not found" when the identifier
  is not in \<open>students\<close>, also when no result carries it, and otherwise returns the
  results of \<open>test_results\<close> with that \<open>student_id\<close>, in the order of \<open>test_results\<close>;
  \<open>get_test_results\<close> does the same with \<open>tests\<close>, 404 "Test not found" and \<open>test_id\<close>.
  Neither changes the store.
\<close>

theorem results_listing:
  "(\<not> dict_contains sid (students s) \<longrightarrow>
      get_student_results sid s = (Inl (HTTPException 404 ''Student not found''), s)) \<and>
   (dict_contains sid (students s) \<longrightarrow>
      get_student_results sid s =
        (Inr (filter (\<lambda>r. student_id r = sid) (test_results s)), s)) \<and>
   (\<not> dict_contains tid (tests s) \<longrightarrow>
      get_test_results tid s = (Inl (HTTPException 404 ''Test not found''), s)) \<and>
   (dict_contains tid (tests s) \<longrightarrow>
      get_test_results tid s =
        (Inr (filter (\<lambda>r. test_id r = tid) (test_results s)), s))"
  by (simp add: get_student_results_def get_test_results_def)

theorem results_listing_witness:
  "(\<not> dict_contains 2 (students graded_store) \<and>
    filter (\<lambda>r. student_id r = 2) (test_results graded_store) = [] \<and>
    fst (get_student_results 2 graded_store) =
      Inl (HTTPException 404 ''Student not found'')) \<and>
   (dict_contains 1 (students graded_store) \<and>
    fst (get_student_results 1 graded_store) =
      Inr [\<lparr>student_id = 1, test_id = 1, score = 10\<rparr>,
           \<lparr>student_id = 1, test_id = 1, score = 5\<rparr>,
           \<lparr>student_id = 1, test_id = 1, score = 15\<rparr>]) \<and>
   (\<not> dict_contains 9 (tests graded_store) \<and>
    fst (get_test_results 9 graded_store) = Inl (HTTPException 404 ''Test not found'')) \<and>
   (dict_contains 1 (tests graded_store) \<and>
    fst (get_test_results 1 graded_store) =
      Inr [\<lparr>student_id = 1, test_id = 1, score = 10\<rparr>,
           \<lparr>student_id = 1, test_id = 1, score = 5\<rparr>,
           \<lparr>student_id = 1, test_id = 1, score = 15\<rparr>])"
proof -
  have h: "\<not> dict_contains 2 (students graded_store)" "dict_contains 1 (students graded_store)"
    "\<not> dict_contains 9 (tests graded_store)" "dict_contains 1 (tests graded_store)"
    by (simp_all add: graded_store_eq dict_contains_def dict_get_def)
  have f: "filter (\<lambda>r. student_id r = 2) (test_results graded_store) = []"
    "filter (\<lambda>r. student_id r = 1) (test_results graded_store) = test_results graded_store"
    "filter (\<lambda>r. test_id r = 1) (test_results graded_store) = test_results graded_store"
    "test_results graded_store =
      [\<lparr>student_id = 1, test_id = 1, score = 10\<rparr>,
       \<lparr>student_id = 1, test_id = 1, score = 5\<rparr>,
       \<lparr>student_id = 1, test_id = 1, score = 15\<rparr>]"
    by (simp_all add: graded_store_eq)
  show ?thesis
    using h results_listing [of 2 graded_store 9] results_listing [of 1 graded_store 1]
    by (simp add: f)
qed

section \<open>Stores reached from the empty store\<close>

lemma run_snoc: "run (reqs @ [x]) = handle x (run reqs)"
  by (simp add: run_def)

lemma handle_tests_mono:
  "dict_get (tests s) k = Some t \<Longrightarrow> dict_get (tests (handle x s)) k = Some t"
  by (cases x)
    (auto simp: endpoint_defs dict_get_set dict_contains_def split: option.splits list.splits)

lemma handle_test_results:
  "test_results (handle x s) = test_results s \<or>
   (\<exists>r t. x = SubmitTestResult r \<and> test_results (handle x s) = test_results s @ [r] \<and>
      dict_get (tests s) (test_id r) = Some t \<and> score r \<le> max_score t)"
  by (cases x)
    (auto simp: endpoint_defs split: option.splits list.splits)

text \<open>
  Claim C5. After any sequence of requests served from the empty store, every result
  in \<open>test_results\<close> was put there by a \<open>submit_test_result\<close> request of the sequence,
  and in the store that request found, its test was present and its score was at most
  that test's \<open>max_score\<close>. Tests are never changed or deleted, so the same bound holds
  against the test in the store reached.
\<close>

theorem results_within_max_score:
  "\<forall>r \<in> set (test_results (run reqs)).
     (\<exists>pre post t. reqs = pre @ SubmitTestResult r # post \<and>
        dict_get (tests (run pre)) (test_id r) = Some t \<and> score r \<le> max_score t) \<and>
     (\<exists>t. dict_get (tests (run reqs)) (test_id r) = Some t \<and> score r \<le> max_score t)"
proof (induction reqs rule: rev_induct)
  case Nil
  then show ?case by (simp add: run_def empty_store_def)
next
  case (snoc x reqs)
  let ?s = "run reqs"
  show ?case
  proof
    fix r
    assume r: "r \<in> set (test_results (run (reqs @ [x])))"
    from handle_test_results [of x ?s]
    consider (old) "r \<in> set (test_results ?s)"
      | (new) t where "x = SubmitTestResult r" "dict_get (tests ?s) (test_id r) = Some t"
          "score r \<le> max_score t"
      using r by (auto simp: run_snoc)
    then show "(\<exists>pre post t. reqs @ [x] = pre @ SubmitTestResult r # post \<and>
        dict_get (tests (run pre)) (test_id r) = Some t \<and> score r \<le> max_score t) \<and>
     (\<exists>t. dict_get (tests (run (reqs @ [x]))) (test_id r) = Some t \<and> score r \<le> max_score t)"
    proof cases
      case old
      with snoc.IH obtain pre post t t' where
        p: "reqs = pre @ SubmitTestResult r # post"
          "dict_get (tests (run pre)) (test_id r) = Some t" "score r \<le> max_score t"
        and c: "dict_get (tests ?s) (test_id r) = Some t'" "score r \<le> max_score t'"
        by blast
      from p(1) have "reqs @ [x] = pre @ SubmitTestResult r # (post @ [x])"
        by simp
      with p(2,3) have "\<exists>pre post t. reqs @ [x] = pre @ SubmitTestResult r # post \<and>
        dict_get (tests (run pre)) (test_id r) = Some t \<and> score r \<le> max_score t"
        by blast
      moreover from c have "\<exists>t. dict_get (tests (run (reqs @ [x]))) (test_id r) = Some t \<and>
        score r \<le> max_score t"
        by (auto simp: run_snoc dest: handle_tests_mono)
      ultimately show ?thesis by blast
    next
      case new
      from new have "reqs @ [x] = reqs @ SubmitTestResult r # []"
        by simp
      with new(2,3) have "\<exists>pre post t. reqs @ [x] = pre @ SubmitTestResult r # post \<and>
        dict_get (tests (run pre)) (test_id r) = Some t \<and> score r \<le> max_score t"
        by blast
      moreover from new(2,3) have "\<exists>t. dict_get (tests (run (reqs @ [x]))) (test_id r) = Some t \<and>
        score r \<le> max_score t"
        by (auto simp: run_snoc dest: handle_tests_mono)
      ultimately show ?thesis by blast
    qed
  qed
qed


theorem results_within_max_score_witness:
  "\<lparr>student_id = 1, test_id = 1, score = 5\<rparr> \<in> set (test_results (run graded_requests)) \<and>
   (\<exists>pre post t.
      graded_requests = pre @ SubmitTestResult \<lparr>student_id = 1, test_id = 1, score = 5\<rparr> # post \<and>
      dict_get (tests (run pre)) 1 = Some t \<and> 5 \<le> max_score t) \<and>
   (\<exists>t. dict_get (tests (run graded_requests)) 1 = Some t \<and> 5 \<le> max_score t)"
proof -
  have m: "\<lparr>student_id = 1, test_id = 1, score = 5\<rparr> \<in> set (test_results (run graded_requests))"
    using graded_store_eq by (simp add: graded_store_def)
  show ?thesis
    using m results_within_max_score [of graded_requests] by fastforce
qed

section \<open>The taken-tests sequence\<close>

text \<open>
  Claim C9, as the code has it. \<open>create_student\<close> stores the student as the request
  gave it, \<open>tests_taken\<close> included, so the sequence starts as whatever the request
  carried (empty when the request leaves the field out). For a student who is in the
  store before and after a request, the request leaves \<open>tests_taken\<close> alone unless it is
  a successful \<open>submit_test_result\<close> for that student, which appends the submitted
  \<open>test_id\<close>.
\<close>

theorem tests_taken_growth:
  "(\<not> dict_contains (s_id student) (students s) \<longrightarrow>
      dict_get (students (snd (create_student student s))) (s_id student) = Some student) \<and>
   (dict_get (students s) i = Some st \<and> dict_get (students (handle x s)) i = Some st' \<longrightarrow>
      tests_taken st' = tests_taken st \<or>
      (\<exists>r. x = SubmitTestResult r \<and> student_id r = i \<and>
         fst (submit_test_result r s) = Inr r \<and>
         tests_taken st' = tests_taken st @ [test_id r]))"
proof -
  have "dict_get (students (snd (create_student student s))) (s_id student) = Some student"
    if "\<not> dict_contains (s_id student) (students s)"
    using that by (simp add: create_student_def dict_get_set)
  moreover have "tests_taken st' = tests_taken st \<or>
      (\<exists>r. x = SubmitTestResult r \<and> student_id r = i \<and>
         fst (submit_test_result r s) = Inr r \<and>
         tests_taken st' = tests_taken st @ [test_id r])"
    if "dict_get (students s) i = Some st" "dict_get (students (handle x s)) i = Some st'"
    using that
    by (cases x)
      (auto simp: endpoint_defs dict_get_set dict_get_del dict_get_update dict_contains_def
        split: option.splits list.splits if_splits)
  ultimately show ?thesis
    by blast
qed


theorem tests_taken_growth_witness:
  "(\<not> dict_contains (s_id transfer_student) (students scenario_store) \<and>
    dict_get (students (snd (create_student transfer_student scenario_store))) 2 =
      Some transfer_student) \<and>
   (dict_get (students scenario_store) 1 = Some ann_lee \<and>
    dict_get (students (handle (SubmitTestResult \<lparr>student_id = 1, test_id = 1, score = 18\<rparr>)
      scenario_store)) 1 = Some (ann_lee\<lparr>tests_taken := [1]\<rparr>) \<and>
    (tests_taken (ann_lee\<lparr>tests_taken := [1]\<rparr>) = tests_taken ann_lee \<or>
     (\<exists>r. SubmitTestResult \<lparr>student_id = 1, test_id = 1, score = 18\<rparr> = SubmitTestResult r \<and>
        student_id r = 1 \<and> fst (submit_test_result r scenario_store) = Inr r \<and>
        tests_taken (ann_lee\<lparr>tests_taken := [1]\<rparr>) = tests_taken ann_lee @ [test_id r])))"
proof -
  have i: "s_id transfer_student = 2"
    by (simp add: transfer_student_def)
  have h: "\<not> dict_contains (s_id transfer_student) (students scenario_store)"
    "dict_get (students scenario_store) 1 = Some ann_lee"
    by (simp_all add: i scenario_store_eq dict_contains_def dict_get_def)
  have g: "dict_get (students (handle (SubmitTestResult \<lparr>student_id = 1, test_id = 1, score = 18\<rparr>)
      scenario_store)) 1 = Some (ann_lee\<lparr>tests_taken := [1]\<rparr>)"
    by (simp add: scenario_store_eq submit_test_result_def dict_contains_def dict_get_def
        ann_lee_def quiz_def)
  have a: "dict_get (students (snd (create_student transfer_student scenario_store))) 2 =
      Some transfer_student"
    using h(1) tests_taken_growth [of transfer_student scenario_store] by (simp add: i)
  have b: "tests_taken (ann_lee\<lparr>tests_taken := [1]\<rparr>) = tests_taken ann_lee \<or>
     (\<exists>r. SubmitTestResult \<lparr>student_id = 1, test_id = 1, score = 18\<rparr> = SubmitTestResult r \<and>
        student_id r = 1 \<and> fst (submit_test_result r scenario_store) = Inr r \<and>
        tests_taken (ann_lee\<lparr>tests_taken := [1]\<rparr>) = tests_taken ann_lee @ [test_id r])"
    using h(2) g
      tests_taken_growth [of transfer_student scenario_store 1 ann_lee
        "SubmitTestResult \<lparr>student_id = 1, test_id = 1, score = 18\<rparr>"
        "ann_lee\<lparr>tests_taken := [1]\<rparr>"]
    by blast
  show ?thesis
    using h g a b by blast
qed

text \<open>
  The claim as the specification words it says the sequence is empty when the student
  is created. A creation request that carries \<open>tests_taken = [7]\<close> is accepted on the
  empty store, and the student read back has taken test 7, a test that does not exist.
\<close>

theorem tests_taken_supplied_at_creation:
  "fst (get_student 2 (snd (create_student transfer_student empty_store))) =
     Inr transfer_student \<and> tests_taken transfer_student = [7] \<and>
   tests_taken transfer_student \<noteq> []"
  by (simp add: create_student_def get_student_def empty_store_def transfer_student_def
      dict_contains_def dict_get_def)


section \<open>Order of the listings\<close>

lemma handle_student_keys:
  "map fst (students (handle x s)) = surviving_students_step x (map fst (students s))"
  by (cases x)
    (auto simp: endpoint_defs dict_set_new dict_contains_keys keys_dict_del keys_dict_update
      split: option.splits list.splits)

lemma handle_test_keys:
  "map fst (tests (handle x s)) = created_tests_step x (map fst (tests s))"
  by (cases x)
    (auto simp: endpoint_defs dict_set_new dict_contains_keys
      split: option.splits list.splits)

lemma run_student_keys: "map fst (students (run reqs)) = surviving_student_ids reqs"
  by (induction reqs rule: rev_induct)
    (simp_all add: run_snoc handle_student_keys surviving_student_ids_def,
      simp add: run_def empty_store_def)

lemma run_test_keys: "map fst (tests (run reqs)) = created_test_ids reqs"
  by (induction reqs rule: rev_induct)
    (simp_all add: run_snoc handle_test_keys created_test_ids_def,
      simp add: run_def empty_store_def)

lemma surviving_step_distinct: "distinct ids \<Longrightarrow> distinct (surviving_students_step x ids)"
  by (cases x) (auto simp: distinct_removeAll)

lemma created_step_distinct: "distinct ids \<Longrightarrow> distinct (created_tests_step x ids)"
  by (cases x) auto

lemma run_student_keys_distinct: "distinct (map fst (students (run reqs)))"
  by (induction reqs rule: rev_induct)
    (simp_all add: run_snoc handle_student_keys surviving_step_distinct,
      simp add: run_def empty_store_def)

lemma run_test_keys_distinct: "distinct (map fst (tests (run reqs)))"
  by (induction reqs rule: rev_induct)
    (simp_all add: run_snoc handle_test_keys created_step_distinct,
      simp add: run_def empty_store_def)

lemma handle_student_key_is_id:
  assumes "\<forall>p \<in> set (students s). s_id (snd p) = fst p"
  shows "\<forall>p \<in> set (students (handle x s)). s_id (snd p) = fst p"
proof (cases x)
  case (CreateStudent student)
  then show ?thesis
    using assms by (auto simp: create_student_def dict_set_new)
next
  case (DeleteStudent sid)
  then show ?thesis
    using assms by (auto simp: delete_student_def dict_del_def)
next
  case (SubmitTestResult r)
  then show ?thesis
    using assms
    by (auto simp: submit_test_result_def split: option.splits dest!: set_dict_update)
qed (use assms in \<open>auto simp: endpoint_defs split: option.splits list.splits\<close>)

lemma handle_test_key_is_id:
  assumes "\<forall>p \<in> set (tests s). t_id (snd p) = fst p"
  shows "\<forall>p \<in> set (tests (handle x s)). t_id (snd p) = fst p"
  using assms
  by (cases x) (auto simp: endpoint_defs dict_set_new split: option.splits list.splits)

lemma run_student_key_is_id: "\<forall>p \<in> set (students (run reqs)). s_id (snd p) = fst p"
proof (induction reqs rule: rev_induct)
  case Nil
  then show ?case by (simp add: run_def empty_store_def)
next
  case (snoc x reqs)
  then show ?case
    unfolding run_snoc by (rule handle_student_key_is_id)
qed

lemma run_test_key_is_id: "\<forall>p \<in> set (tests (run reqs)). t_id (snd p) = fst p"
proof (induction reqs rule: rev_induct)
  case Nil
  then show ?case by (simp add: run_def empty_store_def)
next
  case (snoc x reqs)
  then show ?case
    unfolding run_snoc by (rule handle_test_key_is_id)
qed

lemma dict_listing:
  assumes "distinct (map fst d)" and "\<forall>p \<in> set d. key (snd p) = fst p"
  shows "map key (dict_values d) = map fst d"
    and "map (\<lambda>v. dict_get d (key v)) (dict_values d) = map Some (dict_values d)"
proof -
  show "map key (dict_values d) = map fst d"
    using assms(2) by (simp add: dict_values_def)
  have "dict_get d (key (snd p)) = Some (snd p)" if "p \<in> set d" for p
  proof -
    from that assms(2) have "(key (snd p), snd p) \<in> set d"
      by (cases p) auto
    with assms(1) show ?thesis
      by (simp add: dict_get_def)
  qed
  then show "map (\<lambda>v. dict_get d (key v)) (dict_values d) = map Some (dict_values d)"
    by (simp add: dict_values_def)
qed

text \<open>
  Claim C10. After any sequence of requests served from the empty store,
  \<open>get_all_students\<close> lists one record for each student created and not deleted since,
  in the order of their creation, each record being the one \<open>get_student\<close> returns for
  its identifier (so with the \<open>tests_taken\<close> of now), and \<open>get_student\<close> succeeds for
  these identifiers only; \<open>get_all_tests\<close> and \<open>get_test\<close> do the same with the tests
  in the order of their creation.
\<close>

theorem listing_in_creation_order:
  "(\<exists>sts. fst (get_all_students (run reqs)) = Inr sts \<and>
      map s_id sts = surviving_student_ids reqs \<and>
      map (\<lambda>st. fst (get_student (s_id st) (run reqs))) sts = map Inr sts) \<and>
   (\<forall>i. (\<exists>st. fst (get_student i (run reqs)) = Inr st) \<longleftrightarrow> i \<in> set (surviving_student_ids reqs)) \<and>
   (\<exists>ts. fst (get_all_tests (run reqs)) = Inr ts \<and>
      map t_id ts = created_test_ids reqs \<and>
      map (\<lambda>t. fst (get_test (t_id t) (run reqs))) ts = map Inr ts) \<and>
   (\<forall>i. (\<exists>t. fst (get_test i (run reqs)) = Inr t) \<longleftrightarrow> i \<in> set (created_test_ids reqs))"
proof -
  let ?s = "run reqs"
  note sl = dict_listing [OF run_student_keys_distinct run_student_key_is_id, of reqs]
  note tl = dict_listing [OF run_test_keys_distinct run_test_key_is_id, of reqs]
  have gs: "fst (get_student i ?s) = (case dict_get (students ?s) i of
      None \<Rightarrow> Inl (HTTPException 404 ''Student not found'') | Some st \<Rightarrow> Inr st)" for i
    by (simp add: get_student_def split: option.splits)
  have gt: "fst (get_test i ?s) = (case dict_get (tests ?s) i of
      None \<Rightarrow> Inl (HTTPException 404 ''Test not found'') | Some t \<Rightarrow> Inr t)" for i
    by (simp add: get_test_def split: option.splits)
  have "map (\<lambda>st. fst (get_student (s_id st) ?s)) (dict_values (students ?s)) =
      map Inr (dict_values (students ?s))"
  proof -
    have "map (\<lambda>st. fst (get_student (s_id st) ?s)) (dict_values (students ?s)) =
      map (\<lambda>w. case w of None \<Rightarrow> Inl (HTTPException 404 ''Student not found'') | Some st \<Rightarrow> Inr st)
        (map (\<lambda>st. dict_get (students ?s) (s_id st)) (dict_values (students ?s)))"
      by (simp add: gs comp_def)
    then show ?thesis
      by (simp only: sl(2)) (simp add: comp_def)
  qed
  then have a: "\<exists>sts. fst (get_all_students ?s) = Inr sts \<and>
      map s_id sts = surviving_student_ids reqs \<and>
      map (\<lambda>st. fst (get_student (s_id st) ?s)) sts = map Inr sts"
    using sl(1) by (simp add: get_all_students_def run_student_keys)
  have "map (\<lambda>t. fst (get_test (t_id t) ?s)) (dict_values (tests ?s)) =
      map Inr (dict_values (tests ?s))"
  proof -
    have "map (\<lambda>t. fst (get_test (t_id t) ?s)) (dict_values (tests ?s)) =
      map (\<lambda>w. case w of None \<Rightarrow> Inl (HTTPException 404 ''Test not found'') | Some t \<Rightarrow> Inr t)
        (map (\<lambda>t. dict_get (tests ?s) (t_id t)) (dict_values (tests ?s)))"
      by (simp add: gt comp_def)
    then show ?thesis
      by (simp only: tl(2)) (simp add: comp_def)
  qed
  then have b: "\<exists>ts. fst (get_all_tests ?s) = Inr ts \<and>
      map t_id ts = created_test_ids reqs \<and>
      map (\<lambda>t. fst (get_test (t_id t) ?s)) ts = map Inr ts"
    using tl(1) by (simp add: get_all_tests_def run_test_keys)
  have c: "(\<exists>st. fst (get_student i ?s) = Inr st) \<longleftrightarrow> i \<in> set (surviving_student_ids reqs)" for i
    using dict_contains_keys [of i "students ?s"]
    by (auto simp: gs run_student_keys dict_contains_def split: option.splits)
  have d: "(\<exists>t. fst (get_test i ?s) = Inr t) \<longleftrightarrow> i \<in> set (created_test_ids reqs)" for i
    using dict_contains_keys [of i "tests ?s"]
    by (auto simp: gt run_test_keys dict_contains_def split: option.splits)
  show ?thesis
    using a b c d by blast
qed


theorem listing_in_creation_order_witness:
  "surviving_student_ids reshuffle_requests = [2, 1] \<and>
   created_test_ids reshuffle_requests = [1, 2] \<and>
   fst (get_all_students (run reshuffle_requests)) = Inr [transfer_student, ann_lee] \<and>
   fst (get_all_tests (run reshuffle_requests)) = Inr [quiz, final_exam] \<and>
   (\<exists>sts. fst (get_all_students (run reshuffle_requests)) = Inr sts \<and>
      map s_id sts = [2, 1] \<and>
      map (\<lambda>st. fst (get_student (s_id st) (run reshuffle_requests))) sts = map Inr sts) \<and>
   (\<exists>ts. fst (get_all_tests (run reshuffle_requests)) = Inr ts \<and>
      map t_id ts = [1, 2] \<and>
      map (\<lambda>t. fst (get_test (t_id t) (run reshuffle_requests))) ts = map Inr ts)"
proof -
  have i: "surviving_student_ids reshuffle_requests = [2, 1]"
    "created_test_ids reshuffle_requests = [1, 2]"
    by (simp_all add: surviving_student_ids_def created_test_ids_def reshuffle_requests_def
        ann_lee_def transfer_student_def quiz_def final_exam_def)
  have r: "run reshuffle_requests =
      \<lparr>students = [(2, transfer_student), (1, ann_lee)], tests = [(1, quiz), (2, final_exam)],
       test_results = []\<rparr>"
    by (simp add: reshuffle_requests_def run_def empty_store_def create_student_def
        create_test_def delete_student_def dict_contains_def dict_get_def dict_del_def
        ann_lee_def transfer_student_def quiz_def final_exam_def)
  have l: "fst (get_all_students (run reshuffle_requests)) = Inr [transfer_student, ann_lee]"
    "fst (get_all_tests (run reshuffle_requests)) = Inr [quiz, final_exam]"
    by (simp_all add: r get_all_students_def get_all_tests_def dict_values_def)
  show ?thesis
    using i l listing_in_creation_order [of reshuffle_requests] by auto
qed

end
